theory Spec2Isabelle
  imports
    Complex_Main
    "HOL-Library.Char_ord"
    "HOL-Library.List_Lexorder"
    "HOL-Library.Product_Lexorder"
    "HOL-Library.Multiset"
begin

section \<open>JavaScript values and library functions used by the pages\<close>

text \<open>
  Amounts are JavaScript numbers. They are modelled as exact rationals: every finite
  double is a rational, and the rounding of floating-point addition and division is
  not modelled. A number that may be \<^verbatim>\<open>null\<close>, \<^verbatim>\<open>undefined\<close> or \<^verbatim>\<open>NaN\<close> is a
  \<open>rat option\<close> with \<open>None\<close> for all three, so that \<^verbatim>\<open>x || 0\<close> is \<open>orZero\<close>
  (the remaining falsy number, \<open>0\<close>, is mapped to \<open>0\<close> either way).
\<close>

definition orZero :: "rat option \<Rightarrow> rat" where
  "orZero x = (case x of None \<Rightarrow> 0 | Some v \<Rightarrow> v)"

subsection \<open>Strings\<close>

text \<open>
  A string is the list of its UTF-8 bytes; the order of \<open>HOL-Library.List_Lexorder\<close>
  over \<open>HOL-Library.Char_ord\<close> is then the order by code points. The two kanji of
  the month label are written by their bytes: U+5E74 (year) and U+6708 (month).
\<close>

definition nen :: string where
  "nen = [CHR 0xE5, CHR 0xB9, CHR 0xB4]"

definition getsu :: string where
  "getsu = [CHR 0xE6, CHR 0x9C, CHR 0x88]"

definition is_digit :: "char \<Rightarrow> bool" where
  "is_digit c = (c \<in> set ''0123456789'')"

definition digit_char :: "nat \<Rightarrow> char" where
  "digit_char n = ''0123456789'' ! (n mod 10)"

definition digit_val :: "char \<Rightarrow> nat" where
  "digit_val c = of_char c - 48"

text \<open>\<^verbatim>\<open>String(n)\<close> and \<^verbatim>\<open>`${n}`\<close> for an integer \<open>n\<close>: decimal digits, no padding.\<close>

fun show_nat :: "nat \<Rightarrow> string" where
  "show_nat n = (if n < 10 then [digit_char n] else show_nat (n div 10) @ [digit_char (n mod 10)])"

declare show_nat.simps [simp del]

definition show_int :: "int \<Rightarrow> string" where
  "show_int i = (if i < 0 then CHR ''-'' # show_nat (nat (- i)) else show_nat (nat i))"

text \<open>\<^verbatim>\<open>s.padStart(n, c)\<close> for a one-character filler \<open>c\<close>.\<close>

definition padStart :: "nat \<Rightarrow> char \<Rightarrow> string \<Rightarrow> string" where
  "padStart n c s = replicate (n - length s) c @ s"

text \<open>\<^verbatim>\<open>s.replace(c, r)\<close> with a string pattern replaces the first occurrence only.\<close>

fun replace_first :: "char \<Rightarrow> string \<Rightarrow> string \<Rightarrow> string" where
  "replace_first c r [] = []"
| "replace_first c r (x # xs) = (if x = c then r @ xs else x # replace_first c r xs)"

text \<open>\<^verbatim>\<open>s.replace(/(\d{2})$/, '$1' + r)\<close>: when the string ends in two digits, \<open>r\<close>
  is put after them; otherwise the string is returned as it is.\<close>

definition replace_final_2digits :: "string \<Rightarrow> string \<Rightarrow> string" where
  "replace_final_2digits r s =
     (if 2 \<le> length s \<and> is_digit (last s) \<and> is_digit (last (butlast s)) then s @ r else s)"

text \<open>
  \<^verbatim>\<open>a.localeCompare(b)\<close>: negative, zero or positive. On the strings compared here
  (digits and the two kanji) the collation order is the code point order.
\<close>

definition localeCompare :: "string \<Rightarrow> string \<Rightarrow> rat" where
  "localeCompare a b = (if a < b then - 1 else if a = b then 0 else 1)"

subsection \<open>Objects used as dictionaries\<close>

text \<open>
  A \<^verbatim>\<open>Record<string, V>\<close> is the list of its own properties in creation order.
  Reading a missing key gives \<^verbatim>\<open>undefined\<close> (\<open>None\<close>); writing an existing key
  keeps its place, writing a new key appends it. The keys are category labels and
  month keys; a key that is the name of a property inherited from
  \<^verbatim>\<open>Object.prototype\<close> (a category called \<^verbatim>\<open>constructor\<close>, say) is outside this model.
\<close>

type_synonym 'v object = "(string \<times> 'v) list"

definition obj_get :: "'v object \<Rightarrow> string \<Rightarrow> 'v option" where
  "obj_get obj k = map_of obj k"

fun obj_set :: "'v object \<Rightarrow> string \<Rightarrow> 'v \<Rightarrow> 'v object" where
  "obj_set [] k v = [(k, v)]"
| "obj_set ((k', v') # obj) k v = (if k' = k then (k, v) # obj else (k', v') # obj_set obj k v)"

text \<open>
  \<^verbatim>\<open>Object.entries\<close> lists the keys that are array indices (canonical decimal
  numerals below \<open>2\<^sup>3\<^sup>2 - 1\<close>) first, in ascending numeric order, then the other keys
  in creation order.
\<close>

definition digits_val :: "string \<Rightarrow> nat" where
  "digits_val s = foldl (\<lambda>n c. 10 * n + digit_val c) 0 s"

definition is_array_index :: "string \<Rightarrow> bool" where
  "is_array_index s =
     (s \<noteq> [] \<and> list_all is_digit s \<and> show_nat (digits_val s) = s \<and> digits_val s < 4294967295)"

definition Object_entries :: "'v object \<Rightarrow> (string \<times> 'v) list" where
  "Object_entries obj =
     sort_key (\<lambda>e. digits_val (fst e)) (filter (\<lambda>e. is_array_index (fst e)) obj)
     @ filter (\<lambda>e. \<not> is_array_index (fst e)) obj"

subsection \<open>Arrays\<close>

text \<open>
  \<^verbatim>\<open>xs.sort(cmp)\<close> is a stable sort; for a comparator that is a consistent total
  preorder its result is that of the stable insertion sort below. \<^verbatim>\<open>xs.slice(-n)\<close>
  keeps the last \<open>n\<close> elements.
\<close>

fun insert_by :: "('a \<Rightarrow> 'a \<Rightarrow> rat) \<Rightarrow> 'a \<Rightarrow> 'a list \<Rightarrow> 'a list" where
  "insert_by cmp x [] = [x]"
| "insert_by cmp x (y # ys) = (if cmp x y \<le> 0 then x # y # ys else y # insert_by cmp x ys)"

definition sort_by :: "('a \<Rightarrow> 'a \<Rightarrow> rat) \<Rightarrow> 'a list \<Rightarrow> 'a list" where
  "sort_by cmp xs = foldr (insert_by cmp) xs []"

definition slice_last :: "nat \<Rightarrow> 'a list \<Rightarrow> 'a list" where
  "slice_last n xs = drop (length xs - n) xs"

subsection \<open>Dates\<close>

text \<open>
  The \<^verbatim>\<open>date\<close> column of a transaction holds a calendar date, sent as
  \<^verbatim>\<open>YYYY-MM-DD\<close>. \<^verbatim>\<open>new Date(s)\<close> reads a date-only string as midnight UTC, and
  \<^verbatim>\<open>getFullYear()\<close>, \<^verbatim>\<open>getMonth()\<close> read the instant back in local time. With
  the local offset \<open>tz\<close> in minutes east of UTC (between \<open>-720\<close> and \<open>840\<close>), the
  local day is the same calendar day when \<open>0 \<le> tz\<close> and the day before otherwise.
  \<^verbatim>\<open>getMonth()\<close> counts from 0.
\<close>

record cal_date =
  d_year :: int
  d_month :: nat
  d_day :: nat

definition getFullYear :: "int \<Rightarrow> cal_date \<Rightarrow> int" where
  "getFullYear tz d =
     (if 0 \<le> tz \<or> 1 < d_day d \<or> 1 < d_month d then d_year d else d_year d - 1)"

definition getMonth :: "int \<Rightarrow> cal_date \<Rightarrow> nat" where
  "getMonth tz d =
     (if 0 \<le> tz \<or> 1 < d_day d then d_month d - 1
      else if 1 < d_month d then d_month d - 2 else 11)"

section \<open>The analytics page: \<^verbatim>\<open>processData\<close>\<close>

datatype transaction_type = Income | Expense

text \<open>A row of the \<^verbatim>\<open>transactions\<close> table (\<^verbatim>\<open>created_at\<close>, which only orders the
  history list, is left out).\<close>

record transaction =
  t_id :: string
  t_type :: transaction_type
  amount :: "rat option"
  category :: string
  memo :: "string option"
  date :: cal_date


text \<open>The fields \<open>shunyu\<close> and \<open>shishutsu\<close> are the source's kanji-named fields for
  income and expense.\<close>

record MonthlyData =
  month :: string
  shunyu :: rat
  shishutsu :: rat

record month_sums =
  income :: rat
  expense :: rat





text \<open>The second \<^verbatim>\<open>forEach\<close>, over \<^verbatim>\<open>monthlyMap\<close>.\<close>

definition monthKey :: "int \<Rightarrow> transaction \<Rightarrow> string" where
  "monthKey tz t =
     show_int (getFullYear tz (date t)) @ ''-''
       @ padStart 2 (CHR ''0'') (show_nat (getMonth tz (date t) + 1))"

definition monthly_step :: "int \<Rightarrow> month_sums object \<Rightarrow> transaction \<Rightarrow> month_sums object" where
  "monthly_step tz monthlyMap t =
     (let k = monthKey tz t;
          m = (if obj_get monthlyMap k = None
               then obj_set monthlyMap k \<lparr>income = 0, expense = 0\<rparr> else monthlyMap)
      in case obj_get m k of
           None \<Rightarrow> m
         | Some cur \<Rightarrow>
             if t_type t = Income
             then obj_set m k (cur\<lparr>income := income cur + orZero (amount t)\<rparr>)
             else obj_set m k (cur\<lparr>expense := expense cur + orZero (amount t)\<rparr>))"

definition monthly_loop :: "int \<Rightarrow> transaction list \<Rightarrow> month_sums object" where
  "monthly_loop tz transactions = foldl (monthly_step tz) [] transactions"

definition monthLabel :: "string \<Rightarrow> string" where
  "monthLabel k = replace_final_2digits getsu (replace_first (CHR ''-'') nen k)"

definition computeMonthlyTotals :: "int \<Rightarrow> transaction list \<Rightarrow> MonthlyData list" where
  "computeMonthlyTotals tz transactions =
     slice_last 6
       (sort_by (\<lambda>a b. localeCompare (month a) (month b))
          (map (\<lambda>e. \<lparr>month = monthLabel (fst e), shunyu = income (snd e), shishutsu = expense (snd e)\<rparr>)
             (Object_entries (monthly_loop tz transactions))))"



section \<open>The data store\<close>

text \<open>
  The two tables, read and written one call at a time. A call either reaches the
  store or fails as a whole (\<open>reachable\<close>); a failed call changes nothing and
  returns an error object. The store generates the \<^verbatim>\<open>id\<close> of a new row; it is a
  parameter of the functions that insert.
\<close>

record Goal =
  g_id :: string
  target_amount :: rat
  current_amount :: "rat option"
  target_date :: "string option"

record pg_error =
  e_code :: string
  e_message :: string

record db =
  transactions :: "transaction list"
  goals :: "Goal list"
  reachable :: bool

definition fetch_failed :: pg_error where
  "fetch_failed = \<lparr>e_code = '''', e_message = ''Failed to fetch''\<rparr>"

text \<open>The error of \<^verbatim>\<open>.single()\<close> when the query returns no row.\<close>

definition no_rows :: pg_error where
  "no_rows = \<lparr>e_code = ''PGRST116'', e_message = ''no rows returned''\<rparr>"

text \<open>\<^verbatim>\<open>from('goals').select('*').limit(1).single()\<close>\<close>

definition select_goal_single :: "db \<Rightarrow> Goal option \<times> pg_error option" where
  "select_goal_single s =
     (if \<not> reachable s then (None, Some fetch_failed)
      else case goals s of [] \<Rightarrow> (None, Some no_rows) | g # rest \<Rightarrow> (Some g, None))"

text \<open>
  \<^verbatim>\<open>select(columns)\<close> returns objects that hold the named columns only: any other
  property of such an object is \<^verbatim>\<open>undefined\<close> (\<open>None\<close>).
\<close>

datatype jsval = JNull | JNum rat | JStr string

definition goal_column :: "Goal \<Rightarrow> string \<Rightarrow> jsval option" where
  "goal_column g c =
     (if c = ''id'' then Some (JStr (g_id g))
      else if c = ''target_amount'' then Some (JNum (target_amount g))
      else if c = ''current_amount''
        then Some (case current_amount g of None \<Rightarrow> JNull | Some v \<Rightarrow> JNum v)
      else if c = ''target_date''
        then Some (case target_date g of None \<Rightarrow> JNull | Some d \<Rightarrow> JStr d)
      else None)"

definition select_columns :: "string list \<Rightarrow> Goal \<Rightarrow> string \<Rightarrow> jsval option" where
  "select_columns cols g c = (if c \<in> set cols then goal_column g c else None)"

text \<open>\<^verbatim>\<open>from('goals').select(cols).limit(1).single()\<close>\<close>

definition select_goal_columns_single ::
  "string list \<Rightarrow> db \<Rightarrow> (string \<Rightarrow> jsval option) option \<times> pg_error option" where
  "select_goal_columns_single cols s =
     (case select_goal_single s of
        (Some g, e) \<Rightarrow> (Some (select_columns cols g), e)
      | (None, e) \<Rightarrow> (None, e))"

text \<open>
  \<^verbatim>\<open>.eq('id', v)\<close> keeps the rows whose id is \<open>v\<close>. An undefined \<open>v\<close> is sent as
  the text \<^verbatim>\<open>undefined\<close>, which is the id of no row.
\<close>

definition eq_id :: "jsval option \<Rightarrow> Goal \<Rightarrow> bool" where
  "eq_id v g = (v = Some (JStr (g_id g)))"

text \<open>\<^verbatim>\<open>from('goals').update(fields)\<close> with a row filter.\<close>

definition update_goals :: "(Goal \<Rightarrow> Goal) \<Rightarrow> (Goal \<Rightarrow> bool) \<Rightarrow> db \<Rightarrow> db \<times> pg_error option" where
  "update_goals f p s =
     (if \<not> reachable s then (s, Some fetch_failed)
      else (s\<lparr>goals := map (\<lambda>g. if p g then f g else g) (goals s)\<rparr>, None))"

text \<open>\<^verbatim>\<open>from('goals').insert([{target_amount, current_amount}]).select().single()\<close>\<close>

definition insert_goal :: "string \<Rightarrow> rat \<Rightarrow> rat \<Rightarrow> db \<Rightarrow> db \<times> Goal option" where
  "insert_goal new_id ta ca s =
     (if \<not> reachable s then (s, None)
      else let g = \<lparr>g_id = new_id, target_amount = ta, current_amount = Some ca, target_date = None\<rparr>
           in (s\<lparr>goals := goals s @ [g]\<rparr>, Some g))"

text \<open>\<^verbatim>\<open>from('transactions').insert([row])\<close>\<close>

definition insert_transaction :: "transaction \<Rightarrow> db \<Rightarrow> db \<times> pg_error option" where
  "insert_transaction t s =
     (if \<not> reachable s then (s, Some fetch_failed)
      else (s\<lparr>transactions := transactions s @ [t]\<rparr>, None))"

section \<open>The add page: \<^verbatim>\<open>handleSubmit\<close>\<close>

record add_form =
  f_type :: transaction_type
  f_amount :: string
  f_category :: string
  f_memo :: string
  f_date :: cal_date

datatype add_error = MissingInput | InvalidAmount | SaveFailed string

text \<open>\<^verbatim>\<open>(v || 0)\<close> for a numeric column read from a row object.\<close>

definition num_or_zero :: "jsval option \<Rightarrow> rat" where
  "num_or_zero v = (case v of Some (JNum r) \<Rightarrow> r | _ \<Rightarrow> 0)"

text \<open>
  \<open>parseFloat\<close> is the library function of that name, \<open>None\<close> for \<^verbatim>\<open>NaN\<close>. The
  result is the store after the call and the error shown, if any; without an error
  the page navigates home.
\<close>

definition handleSubmit ::
  "(string \<Rightarrow> rat option) \<Rightarrow> string \<Rightarrow> add_form \<Rightarrow> db \<Rightarrow> db \<times> add_error option" where
  "handleSubmit parseFloat new_id form s =
     (if f_amount form = '''' \<or> f_category form = '''' then (s, Some MissingInput)
      else (case parseFloat (f_amount form) of
        None \<Rightarrow> (s, Some InvalidAmount)
      | Some amountNum \<Rightarrow>
          if amountNum \<le> 0 then (s, Some InvalidAmount)
          else (case insert_transaction
                 \<lparr>t_id = new_id, t_type = f_type form, amount = Some amountNum,
                  category = f_category form,
                  memo = (if f_memo form = '''' then None else Some (f_memo form)),
                  date = f_date form\<rparr> s of
            (s1, Some transactionError) \<Rightarrow> (s1, Some (SaveFailed (e_message transactionError)))
          | (s1, None) \<Rightarrow>
              if f_type form = Income
              then (case select_goal_columns_single [''current_amount''] s1 of
                      (Some goalData, e) \<Rightarrow>
                        (fst (update_goals
                               (\<lambda>g. g\<lparr>current_amount :=
                                        Some (num_or_zero (goalData ''current_amount'') + amountNum)\<rparr>)
                               (eq_id (goalData ''id'')) s1),
                         None)
                    | (None, e) \<Rightarrow> (s1, None))
              else (s1, None))))"

section \<open>The home page\<close>

record home_state =
  goal :: "Goal option"
  currentAmount :: rat

definition fetchGoal :: "string \<Rightarrow> db \<times> home_state \<Rightarrow> db \<times> home_state" where
  "fetchGoal new_id x =
     (case x of (s, st) \<Rightarrow>
        (case select_goal_single s of
          (Some data, e) \<Rightarrow> (s, st\<lparr>goal := Some data, currentAmount := orZero (current_amount data)\<rparr>)
        | (None, Some error) \<Rightarrow>
            (if e_code error = ''PGRST116''
             then (case insert_goal new_id 1000000 0 s of
                     (s1, Some newGoal) \<Rightarrow> (s1, st\<lparr>goal := Some newGoal, currentAmount := 0\<rparr>)
                   | (s1, None) \<Rightarrow> (s1, st))
             else (s, st))
        | (None, None) \<Rightarrow> (s, st)))"

subsection \<open>Numbers that may not be finite\<close>

datatype number = Num rat | PosInfinity | NegInfinity | NaN

text \<open>\<^verbatim>\<open>a / b\<close> for a finite \<open>a\<close> (signed zeros are not told apart).\<close>

fun js_div :: "rat \<Rightarrow> number \<Rightarrow> number" where
  "js_div a (Num b) =
     (if b \<noteq> 0 then Num (a / b)
      else if 0 < a then PosInfinity else if a < 0 then NegInfinity else NaN)"
| "js_div a PosInfinity = Num 0"
| "js_div a NegInfinity = Num 0"
| "js_div a NaN = NaN"

text \<open>\<^verbatim>\<open>x * c\<close> for a finite \<open>c\<close>.\<close>

fun js_mul :: "number \<Rightarrow> rat \<Rightarrow> number" where
  "js_mul (Num a) c = Num (a * c)"
| "js_mul PosInfinity c = (if 0 < c then PosInfinity else if c < 0 then NegInfinity else NaN)"
| "js_mul NegInfinity c = (if 0 < c then NegInfinity else if c < 0 then PosInfinity else NaN)"
| "js_mul NaN c = NaN"


fun Math_ceil :: "number \<Rightarrow> number" where
  "Math_ceil (Num a) = Num (of_int \<lceil>a\<rceil>)"
| "Math_ceil x = x"

fun less_than_0 :: "number \<Rightarrow> bool" where
  "less_than_0 (Num a) = (a < 0)"
| "less_than_0 NegInfinity = True"
| "less_than_0 x = False"

fun greater_than_0 :: "number \<Rightarrow> bool" where
  "greater_than_0 (Num a) = (0 < a)"
| "greater_than_0 PosInfinity = True"
| "greater_than_0 x = False"

text \<open>
  \<^verbatim>\<open>x.toFixed(1)\<close>: the nearest multiple of one tenth, the larger one on a tie,
  written with one decimal (for magnitudes below \<open>10\<^sup>2\<^sup>1\<close>).
\<close>

fun toFixed1 :: "number \<Rightarrow> string" where
  "toFixed1 (Num x) =
     (let n = nat \<lfloor>\<bar>x\<bar> * 10 + 1 / 2\<rfloor>;
          m = padStart 2 (CHR ''0'') (show_nat n)
      in (if x < 0 then ''-'' else '''') @ butlast m @ ''.'' @ [last m])"
| "toFixed1 PosInfinity = ''Infinity''"
| "toFixed1 NegInfinity = ''-Infinity''"
| "toFixed1 NaN = ''NaN''"

subsection \<open>The values computed when the page renders\<close>

definition progress :: "home_state \<Rightarrow> number" where
  "progress st =
     (case goal st of
        None \<Rightarrow> Num 0
      | Some g \<Rightarrow> js_mul (js_div (currentAmount st) (Num (target_amount g))) 100)"


definition readout :: "home_state \<Rightarrow> string" where
  "readout st = toFixed1 (progress st)"





definition isOverdue :: "number option \<Rightarrow> bool" where
  "isOverdue d = (case d of None \<Rightarrow> False | Some n \<Rightarrow> less_than_0 n)"

text \<open>The line with the required amount per day: \<open>None\<close> when it is not rendered.\<close>

definition requiredDailyPace :: "Goal option \<Rightarrow> rat \<Rightarrow> number option \<Rightarrow> number option" where
  "requiredDailyPace g cur d =
     (case d of
        None \<Rightarrow> None
      | Some n \<Rightarrow>
          if \<not> isOverdue d \<and> greater_than_0 n
          then Some (Math_ceil
                 (js_div ((case g of None \<Rightarrow> 0 | Some gl \<Rightarrow> target_amount gl) - cur) n))
          else None)"

section \<open>The settings page\<close>

record settings_state =
  s_goal :: "Goal option"
  targetAmount :: string
  targetDate :: string

datatype settings_error =
  InvalidTargetAmount | InvalidTargetDate | GoalNotFound | UpdateFailed string

text \<open>\<open>numToString\<close> is \<^verbatim>\<open>Number.prototype.toString\<close>.\<close>

definition fetchGoal_settings ::
  "(rat \<Rightarrow> string) \<Rightarrow> string \<Rightarrow> db \<times> settings_state \<Rightarrow> db \<times> settings_state" where
  "fetchGoal_settings numToString new_id x =
     (case x of (s, st) \<Rightarrow>
        (case select_goal_single s of
          (Some data, e) \<Rightarrow>
            (s, st\<lparr>s_goal := Some data,
                  targetAmount := numToString (target_amount data),
                  targetDate := (case target_date data of
                                   None \<Rightarrow> ''''
                                 | Some d \<Rightarrow> takeWhile (\<lambda>c. c \<noteq> CHR ''T'') d)\<rparr>)
        | (None, Some error) \<Rightarrow>
            (if e_code error = ''PGRST116''
             then (case insert_goal new_id 1000000 0 s of
                     (s1, Some newGoal) \<Rightarrow>
                       (s1, st\<lparr>s_goal := Some newGoal, targetAmount := ''1000000'', targetDate := ''''\<rparr>)
                   | (s1, None) \<Rightarrow> (s1, st))
             else (s, st))
        | (None, None) \<Rightarrow> (s, st)))"

definition handleSubmit_settings ::
  "(string \<Rightarrow> rat option) \<Rightarrow> (string \<Rightarrow> int option) \<Rightarrow> db \<times> settings_state
     \<Rightarrow> db \<times> settings_error option" where
  "handleSubmit_settings parseFloat parseDate x =
     (case x of (s, st) \<Rightarrow>
        (case parseFloat (targetAmount st) of
          None \<Rightarrow> (s, Some InvalidTargetAmount)
        | Some amountNum \<Rightarrow>
            if amountNum \<le> 0 then (s, Some InvalidTargetAmount)
            else if targetDate st \<noteq> '''' \<and> parseDate (targetDate st) = None
              then (s, Some InvalidTargetDate)
            else (case s_goal st of
              None \<Rightarrow> (s, Some GoalNotFound)
            | Some gl \<Rightarrow>
                (case update_goals
                        (\<lambda>g. g\<lparr>target_amount := amountNum,
                               target_date := (if targetDate st \<noteq> '''' then Some (targetDate st)
                                               else None)\<rparr>)
                        (\<lambda>g. g_id g = g_id gl) s of
                   (s1, Some updateError) \<Rightarrow> (s1, Some (UpdateFailed (e_message updateError)))
                 | (s1, None) \<Rightarrow> (s1, None)))))"

section \<open>Inputs of the examples\<close>

text \<open>\<^verbatim>\<open>parseFloat\<close> on a string of decimal digits; the examples submit no other string.\<close>

definition parseFloat_digits :: "string \<Rightarrow> rat option" where
  "parseFloat_digits s =
     (if s \<noteq> [] \<and> list_all is_digit s then Some (of_nat (digits_val s)) else None)"

text \<open>The transactions of the monthly example: an income of 1000 on 2024-01-05, an
  expense of 300 for food on 2024-01-10 and an income of 500 on 2024-02-01.\<close>

definition example_transactions :: "transaction list" where
  "example_transactions =
     [\<lparr>t_id = ''1'', t_type = Income, amount = Some 1000, category = ''salary'', memo = None,
       date = \<lparr>d_year = 2024, d_month = 1, d_day = 5\<rparr>\<rparr>,
      \<lparr>t_id = ''2'', t_type = Expense, amount = Some 300, category = ''food'', memo = None,
       date = \<lparr>d_year = 2024, d_month = 1, d_day = 10\<rparr>\<rparr>,
      \<lparr>t_id = ''3'', t_type = Income, amount = Some 500, category = ''salary'', memo = None,
       date = \<lparr>d_year = 2024, d_month = 2, d_day = 1\<rparr>\<rparr>]"




section \<open>Reference notions for the aggregates\<close>





section \<open>Recording an income and the goal\<close>

text \<open>
  The row object read by \<^verbatim>\<open>select('current_amount')\<close> has no \<^verbatim>\<open>id\<close>, so the filter
  of the update that follows it selects no row: whatever is submitted, the goals
  table is left as it was.
\<close>

lemma handleSubmit_goals: "goals (fst (handleSubmit pf new_id form s)) = goals s"
  by (auto simp: handleSubmit_def insert_transaction_def select_goal_columns_single_def
      select_goal_single_def update_goals_def eq_id_def select_columns_def
      split: option.splits prod.splits list.splits if_splits)

text \<open>
  C1. For every recorded income transaction of amount \<open>a\<close>, the goal's
  \<^verbatim>\<open>current_amount\<close> should be incremented by exactly \<open>a\<close>. The code does not do
  this: submitting an income of 1000 against a goal with \<^verbatim>\<open>current_amount = 0\<close>
  records the transaction and leaves the goal row unchanged, with
  \<^verbatim>\<open>current_amount\<close> still 0.
\<close>

theorem handleSubmit_income_goal_not_incremented:
  "handleSubmit parseFloat_digits ''t1''
     \<lparr>f_type = Income, f_amount = ''1000'', f_category = ''salary'', f_memo = '''',
      f_date = \<lparr>d_year = 2024, d_month = 1, d_day = 5\<rparr>\<rparr>
     \<lparr>transactions = [],
      goals = [\<lparr>g_id = ''g1'', target_amount = 1000000, current_amount = Some 0,
                target_date = None\<rparr>],
      reachable = True\<rparr>
   = (\<lparr>transactions =
         [\<lparr>t_id = ''t1'', t_type = Income, amount = Some 1000, category = ''salary'',
           memo = None, date = \<lparr>d_year = 2024, d_month = 1, d_day = 5\<rparr>\<rparr>],
       goals = [\<lparr>g_id = ''g1'', target_amount = 1000000, current_amount = Some 0,
                 target_date = None\<rparr>],
       reachable = True\<rparr>, None)"
  by (simp add: handleSubmit_def parseFloat_digits_def is_digit_def digits_val_def digit_val_def
      insert_transaction_def select_goal_columns_single_def select_goal_single_def
      update_goals_def eq_id_def select_columns_def)

section \<open>Floor and ceiling of rational quotients\<close>

lemma floor_rat_numeral: "\<lfloor>numeral a / numeral b :: rat\<rfloor> = numeral a div numeral b"
  using floor_divide_of_int_eq [of "numeral a" "numeral b", where ?'a = rat] by simp

lemma ceiling_rat_of_int: "\<lceil>(of_int a :: rat) / of_int b\<rceil> = - (- a div b)"
proof -
  have "\<lceil>(of_int a :: rat) / of_int b\<rceil> = - \<lfloor>(of_int (- a) :: rat) / of_int b\<rfloor>"
    by (simp add: ceiling_def)
  then show ?thesis
    by (simp only: floor_divide_of_int_eq)
qed

lemma ceiling_rat_numeral: "\<lceil>numeral a / numeral b :: rat\<rceil> = - (- numeral a div numeral b)"
  using ceiling_rat_of_int [of "numeral a" "numeral b"] by simp


section \<open>The deadline\<close>





section \<open>The required daily pace\<close>

text \<open>
  C7. The pace is computed only when the goal is not overdue and \<open>daysRemaining\<close>
  is positive, and then it is the ceiling of (target amount - current amount) /
  \<open>daysRemaining\<close>; for \<open>daysRemaining \<le> 0\<close> nothing is computed. The divisor is
  therefore never zero: a computed pace is always a finite integer. With target
  1000000, current 400000 and 30 days the pace is 20000.
\<close>

theorem requiredDailyPace_guarded:
  "(requiredDailyPace g cur d = None \<or> (\<exists>p. requiredDailyPace g cur d = Some (Num (of_int p))))
   \<and> (requiredDailyPace g cur d \<noteq> None \<longrightarrow> \<not> isOverdue d \<and> d \<noteq> Some (Num 0))
   \<and> (d = Some (Num n) \<and> 0 < n \<longrightarrow>
        requiredDailyPace (Some gl) cur d = Some (Num (of_int \<lceil>(target_amount gl - cur) / n\<rceil>)))
   \<and> (d = Some (Num n) \<and> n \<le> 0 \<longrightarrow> requiredDailyPace g cur d = None)
   \<and> requiredDailyPace
        (Some \<lparr>g_id = i, target_amount = 1000000, current_amount = Some 400000, target_date = td\<rparr>)
        400000 (Some (Num 30)) = Some (Num 20000)"
proof -
  have a: "requiredDailyPace g cur d = None \<or> (\<exists>p. requiredDailyPace g cur d = Some (Num (of_int p)))"
  proof (cases d)
    case None
    then show ?thesis by (simp add: requiredDailyPace_def)
  next
    case (Some m)
    then show ?thesis
      by (cases m) (auto simp: requiredDailyPace_def isOverdue_def intro: exI [of _ 0])
  qed
  have b: "requiredDailyPace g cur d \<noteq> None \<longrightarrow> \<not> isOverdue d \<and> d \<noteq> Some (Num 0)"
    by (auto simp: requiredDailyPace_def split: option.splits if_splits)
  have c: "d = Some (Num n) \<and> 0 < n \<longrightarrow>
        requiredDailyPace (Some gl) cur d = Some (Num (of_int \<lceil>(target_amount gl - cur) / n\<rceil>))"
    by (simp add: requiredDailyPace_def isOverdue_def)
  have e: "d = Some (Num n) \<and> n \<le> 0 \<longrightarrow> requiredDailyPace g cur d = None"
    by (auto simp: requiredDailyPace_def isOverdue_def)
  have f: "requiredDailyPace
        (Some \<lparr>g_id = i, target_amount = 1000000, current_amount = Some 400000, target_date = td\<rparr>)
        400000 (Some (Num 30)) = Some (Num 20000)"
    by (simp add: requiredDailyPace_def isOverdue_def ceiling_rat_numeral)
  from a b c e f show ?thesis by blast
qed

theorem requiredDailyPace_guarded_witness:
  "requiredDailyPace
     (Some \<lparr>g_id = ''g1'', target_amount = 1000, current_amount = Some 400, target_date = None\<rparr>)
     400 (Some (Num 7)) = Some (Num 86)
   \<and> requiredDailyPace
     (Some \<lparr>g_id = ''g1'', target_amount = 1000, current_amount = Some 400, target_date = None\<rparr>)
     400 (Some (Num 0)) = None"
  using requiredDailyPace_guarded
      [of "Some \<lparr>g_id = ''g1'', target_amount = 1000, current_amount = Some 400, target_date = None\<rparr>"
          400 "Some (Num 7)" 7
          "\<lparr>g_id = ''g1'', target_amount = 1000, current_amount = Some 400, target_date = None\<rparr>"]
    requiredDailyPace_guarded
      [of "Some \<lparr>g_id = ''g1'', target_amount = 1000, current_amount = Some 400, target_date = None\<rparr>"
          400 "Some (Num 0)" 0]
  by (simp add: ceiling_rat_numeral)

section \<open>Progress towards the goal\<close>



section \<open>Saving the settings\<close>

text \<open>
  C9. Saving the settings leaves the \<^verbatim>\<open>current_amount\<close> (and the id) of every goal
  row, and the transactions, as they were. With a valid target amount, a valid or
  empty date, a loaded goal and the store reached, the rows with the id of the
  loaded goal get the submitted target amount and target date (\<^verbatim>\<open>null\<close> for an
  empty date) and nothing else changes.
\<close>

theorem handleSubmit_settings_frame:
  "map g_id (goals (fst (handleSubmit_settings pf pd (s, st)))) = map g_id (goals s)
   \<and> map current_amount (goals (fst (handleSubmit_settings pf pd (s, st))))
       = map current_amount (goals s)
   \<and> transactions (fst (handleSubmit_settings pf pd (s, st))) = transactions s
   \<and> (pf (targetAmount st) = Some a \<and> 0 < a
        \<and> (targetDate st = '''' \<or> pd (targetDate st) \<noteq> None)
        \<and> s_goal st = Some gl \<and> reachable s \<longrightarrow>
      handleSubmit_settings pf pd (s, st) =
        (s\<lparr>goals :=
             map (\<lambda>g. if g_id g = g_id gl
                       then g\<lparr>target_amount := a,
                              target_date := (if targetDate st = '''' then None
                                              else Some (targetDate st))\<rparr>
                       else g) (goals s)\<rparr>, None))"
  by (auto simp: handleSubmit_settings_def update_goals_def comp_def
      split: option.splits if_splits)

theorem handleSubmit_settings_frame_witness:
  "handleSubmit_settings parseFloat_digits (\<lambda>d. Some 1735689600000)
     (\<lparr>transactions = [],
       goals = [\<lparr>g_id = ''g1'', target_amount = 1000000, current_amount = Some 4200,
                 target_date = None\<rparr>],
       reachable = True\<rparr>,
      \<lparr>s_goal = Some \<lparr>g_id = ''g1'', target_amount = 1000000, current_amount = Some 4200,
                       target_date = None\<rparr>,
       targetAmount = ''500000'', targetDate = ''2025-01-01''\<rparr>)
   = (\<lparr>transactions = [],
       goals = [\<lparr>g_id = ''g1'', target_amount = 500000, current_amount = Some 4200,
                 target_date = Some ''2025-01-01''\<rparr>],
       reachable = True\<rparr>, None)"
  using handleSubmit_settings_frame
      [of parseFloat_digits "\<lambda>d. Some 1735689600000"
          "\<lparr>transactions = [],
            goals = [\<lparr>g_id = ''g1'', target_amount = 1000000, current_amount = Some 4200,
                      target_date = None\<rparr>],
            reachable = True\<rparr>"
          "\<lparr>s_goal = Some \<lparr>g_id = ''g1'', target_amount = 1000000, current_amount = Some 4200,
                            target_date = None\<rparr>,
            targetAmount = ''500000'', targetDate = ''2025-01-01''\<rparr>"
          500000
          "\<lparr>g_id = ''g1'', target_amount = 1000000, current_amount = Some 4200,
            target_date = None\<rparr>"]
  by (simp add: parseFloat_digits_def is_digit_def digits_val_def digit_val_def)

section \<open>The default goal\<close>

text \<open>
  C10. When a fetch finds no goal row, one default goal is created, with target
  amount 1000000 and current amount 0, by the home page and by the settings page
  alike; the next fetch finds it and creates nothing. As long as the page holds no
  goal, the progress shown is 0.
\<close>

theorem fetchGoal_creates_default_goal:
  assumes "goals s = []" and "reachable s"
  shows "fetchGoal new_id (s, st)
           = (s\<lparr>goals := [\<lparr>g_id = new_id, target_amount = 1000000, current_amount = Some 0,
                            target_date = None\<rparr>]\<rparr>,
              st\<lparr>goal := Some \<lparr>g_id = new_id, target_amount = 1000000, current_amount = Some 0,
                               target_date = None\<rparr>,
                 currentAmount := 0\<rparr>)
       \<and> goals (fst (fetchGoal id2 (fetchGoal new_id (s, st))))
           = goals (fst (fetchGoal new_id (s, st)))
       \<and> goals (fst (fetchGoal_settings ts new_id (s, st2)))
           = [\<lparr>g_id = new_id, target_amount = 1000000, current_amount = Some 0,
               target_date = None\<rparr>]
       \<and> goals (fst (fetchGoal_settings ts id2 (fetchGoal_settings ts new_id (s, st2))))
           = goals (fst (fetchGoal_settings ts new_id (s, st2)))
       \<and> (goal st = None \<longrightarrow> progress st = Num 0 \<and> readout st = ''0.0'')"
  using assms
  by (simp add: fetchGoal_def fetchGoal_settings_def select_goal_single_def insert_goal_def
      no_rows_def progress_def readout_def Let_def padStart_def show_nat.simps digit_char_def
      floor_rat_numeral)

theorem fetchGoal_creates_default_goal_witness:
  "fetchGoal ''g1'' (\<lparr>transactions = [], goals = [], reachable = True\<rparr>,
                     \<lparr>goal = None, currentAmount = 0\<rparr>)
     = (\<lparr>transactions = [],
         goals = [\<lparr>g_id = ''g1'', target_amount = 1000000, current_amount = Some 0,
                   target_date = None\<rparr>],
         reachable = True\<rparr>,
        \<lparr>goal = Some \<lparr>g_id = ''g1'', target_amount = 1000000, current_amount = Some 0,
                       target_date = None\<rparr>,
         currentAmount = 0\<rparr>)
   \<and> progress \<lparr>goal = None, currentAmount = 0\<rparr> = Num 0"
  using fetchGoal_creates_default_goal
      [of "\<lparr>transactions = [], goals = [], reachable = True\<rparr>" "''g1''"
          "\<lparr>goal = None, currentAmount = 0\<rparr>"]
  by simp

section \<open>Dictionaries and sorting\<close>














section \<open>Category totals\<close>












section \<open>Digits and month labels\<close>























section \<open>Monthly totals\<close>










lemma monthKey_east: "0 \<le> tz \<Longrightarrow> monthKey tz t = monthKey 0 t"
  by (simp add: monthKey_def getFullYear_def getMonth_def)

lemma computeMonthlyTotals_east: "0 \<le> tz \<Longrightarrow> computeMonthlyTotals tz ts = computeMonthlyTotals 0 ts"
proof -
  assume tz: "0 \<le> tz"
  have "monthly_step tz = monthly_step 0"
    by (intro ext) (simp add: monthly_step_def monthKey_east [OF tz])
  then show ?thesis
    by (simp add: computeMonthlyTotals_def monthly_loop_def)
qed

text \<open>The example at UTC, and five hours west of it, where the date 2024-02-01 is
  read as a day of January.\<close>

lemma computeMonthlyTotals_example_utc: "computeMonthlyTotals 0 example_transactions
     = [\<lparr>month = ''2024'' @ nen @ ''01'' @ getsu, shunyu = 1000, shishutsu = 300\<rparr>,
        \<lparr>month = ''2024'' @ nen @ ''02'' @ getsu, shunyu = 500, shishutsu = 0\<rparr>]"
  by code_simp

lemma computeMonthlyTotals_example_west: "computeMonthlyTotals (- 300) example_transactions
     = [\<lparr>month = ''2024'' @ nen @ ''01'' @ getsu, shunyu = 1500, shishutsu = 300\<rparr>]"
  by code_simp

text \<open>
  C2. Where the local UTC offset is not negative, the monthly totals of
  the example are two entries, for January and February 2024, with income 1000 and
  expense 300, and income 500 and expense 0. The \<^verbatim>\<open>month\<close> field of an entry is
  the label made from the key \<^verbatim>\<open>YYYY-MM\<close>: the year, the kanji for year, the
  two-digit month and the kanji for month.
\<close>

theorem computeMonthlyTotals_example: "0 \<le> tz \<Longrightarrow> computeMonthlyTotals tz example_transactions
     = [\<lparr>month = ''2024'' @ nen @ ''01'' @ getsu, shunyu = 1000, shishutsu = 300\<rparr>,
        \<lparr>month = ''2024'' @ nen @ ''02'' @ getsu, shunyu = 500, shishutsu = 0\<rparr>]"
  by (simp only: computeMonthlyTotals_east computeMonthlyTotals_example_utc)

text \<open>The \<^verbatim>\<open>month\<close> field is not the key \<^verbatim>\<open>YYYY-MM\<close> itself.\<close>

theorem computeMonthlyTotals_example_counterexample: "computeMonthlyTotals 0 example_transactions
     \<noteq> [\<lparr>month = ''2024-01'', shunyu = 1000, shishutsu = 300\<rparr>,
        \<lparr>month = ''2024-02'', shunyu = 500, shishutsu = 0\<rparr>]"
  by code_simp

theorem computeMonthlyTotals_example_witness: "computeMonthlyTotals 540 example_transactions
     = [\<lparr>month = ''2024'' @ nen @ ''01'' @ getsu, shunyu = 1000, shishutsu = 300\<rparr>,
        \<lparr>month = ''2024'' @ nen @ ''02'' @ getsu, shunyu = 500, shishutsu = 0\<rparr>]"
  using computeMonthlyTotals_example [of 540] by simp




end
